theory Spec2Isabelle
  imports Main "HOL-Library.Word"
begin

unbundle bit_operations_syntax

section \<open>btree.h: the constants\<close>

text \<open>
  The \<^verbatim>\<open>#define\<close> lines of \<^verbatim>\<open>btree.h\<close>. Node flags live in the 16-bit field
  \<^verbatim>\<open>btn_flags\<close>, tree flags in the 32-bit field \<^verbatim>\<open>bt_flags\<close>; the remaining
  constants are plain C \<^verbatim>\<open>int\<close> literals.
\<close>

subsection \<open>B-Tree Flags\<close>











subsection \<open>B-Tree Table of Contents Constants\<close>

definition BTREE_TOC_ENTRY_INCREMENT :: int where
  "BTREE_TOC_ENTRY_INCREMENT = 8"

definition BTREE_TOC_ENTRY_MAX_UNUSED :: int where
  "BTREE_TOC_ENTRY_MAX_UNUSED = 2 * BTREE_TOC_ENTRY_INCREMENT"

subsection \<open>B-Tree Node Flags\<close>

definition BTNODE_ROOT :: "16 word" where
  "BTNODE_ROOT = 0x0001"

definition BTNODE_LEAF :: "16 word" where
  "BTNODE_LEAF = 0x0002"

definition BTNODE_FIXED_KV_SIZE :: "16 word" where
  "BTNODE_FIXED_KV_SIZE = 0x0004"

definition BTNODE_CHECK_KOFF_INVAL :: "16 word" where
  "BTNODE_CHECK_KOFF_INVAL = 0x8000"

text \<open>Every constant of the block \<^verbatim>\<open>B-Tree Node Flags\<close>, in the order of the header.\<close>

definition btnode_flags :: "16 word list" where
  "btnode_flags = [BTNODE_ROOT, BTNODE_LEAF, BTNODE_FIXED_KV_SIZE, BTNODE_CHECK_KOFF_INVAL]"

subsection \<open>B-Tree Node Constants\<close>

definition BTREE_NODE_SIZE_DEFAULT :: int where
  "BTREE_NODE_SIZE_DEFAULT = 4096"

definition BTREE_NODE_MIN_ENTRY_COUNT :: int where
  "BTREE_NODE_MIN_ENTRY_COUNT = 4"

text \<open>The bitwise union of a list of flag constants: the bits that the list defines.\<close>

definition defined_bits :: "'a::len word list \<Rightarrow> 'a word" where
  "defined_bits fs = fold (OR) fs 0"

section \<open>btree.h: the structures\<close>

text \<open>
  A C type as far as the header uses one: the fixed-width unsigned integers, a
  \<^verbatim>\<open>struct\<close> with its members in declaration order, and the flexible array member
  \<^verbatim>\<open>uint64_t btn_data[]\<close> that ends \<^verbatim>\<open>btree_node_phys_t\<close>.
\<close>

datatype ctype = Uint8 | Uint16 | Uint32 | Uint64
  | Struct "(string \<times> ctype) list"
  | FlexArray ctype

text \<open>
  Size and placement follow the C rules for a structure that is not packed (the header
  has no packing attribute): an integer is aligned to its own width, a structure to its
  strictest member, every member is placed at the next multiple of its alignment, and the
  size of a structure is rounded up to its alignment. A flexible array member has the
  alignment of its element and adds no bytes.
\<close>

fun align_of :: "ctype \<Rightarrow> nat" where
  "align_of Uint8 = 1"
| "align_of Uint16 = 2"
| "align_of Uint32 = 4"
| "align_of Uint64 = 8"
| "align_of (Struct fs) = fold (\<lambda>f a. max a (align_of (snd f))) fs 1"
| "align_of (FlexArray t) = align_of t"

definition align_up :: "nat \<Rightarrow> nat \<Rightarrow> nat" where
  "align_up n a = ((n + a - 1) div a) * a"

fun size_of :: "ctype \<Rightarrow> nat" where
  "size_of Uint8 = 1"
| "size_of Uint16 = 2"
| "size_of Uint32 = 4"
| "size_of Uint64 = 8"
| "size_of (Struct fs) =
     align_up (fold (\<lambda>f e. align_up e (align_of (snd f)) + size_of (snd f)) fs 0)
       (align_of (Struct fs))"
| "size_of (FlexArray t) = 0"

text \<open>
  The members of a structure with their byte offset and size: \<open>(name, offset, size)\<close>,
  starting at offset \<open>e\<close>.
\<close>

fun layout :: "nat \<Rightarrow> (string \<times> ctype) list \<Rightarrow> (string \<times> nat \<times> nat) list" where
  "layout e [] = []"
| "layout e ((n, t) # fs) =
     (let off = align_up e (align_of t)
      in (n, off, size_of t) # layout (off + size_of t) fs)"

definition members :: "ctype \<Rightarrow> (string \<times> ctype) list" where
  "members t = (case t of Struct fs \<Rightarrow> fs | _ \<Rightarrow> [])"

text \<open>
  Modelled from the spec: \<^verbatim>\<open>obj_phys_t\<close>, which \<^verbatim>\<open>btree.h\<close> includes from
  \<^verbatim>\<open>object.h\<close>; that header is not among the sources. The specification gives the
  object header as checksum (8 bytes), object identifier (8), transaction identifier (8),
  type (4) and subtype (4); \<^verbatim>\<open>string/object.h\<close> reads the members \<^verbatim>\<open>o_oid\<close>,
  \<^verbatim>\<open>o_xid\<close>, \<^verbatim>\<open>o_type\<close> and \<^verbatim>\<open>o_subtype\<close> and prints the first eight bytes as
  the stored checksum.
\<close>

definition obj_phys_t :: ctype where
  "obj_phys_t =
     Struct [(''o_cksum'', Uint64), (''o_oid'', Uint64), (''o_xid'', Uint64),
             (''o_type'', Uint32), (''o_subtype'', Uint32)]"

definition nloc_t :: ctype where
  "nloc_t = Struct [(''off'', Uint16), (''len'', Uint16)]"

definition btree_node_phys_t :: ctype where
  "btree_node_phys_t =
     Struct [(''btn_o'', obj_phys_t),
             (''btn_flags'', Uint16),
             (''btn_level'', Uint16),
             (''btn_nkeys'', Uint32),
             (''btn_table_space'', nloc_t),
             (''btn_free_space'', nloc_t),
             (''btn_key_free_list'', nloc_t),
             (''btn_val_free_list'', nloc_t),
             (''btn_data'', FlexArray Uint64)]"

definition btree_info_fixed_t :: ctype where
  "btree_info_fixed_t =
     Struct [(''bt_flags'', Uint32),
             (''bt_node_size'', Uint32),
             (''bt_key_size'', Uint32),
             (''bt_val_size'', Uint32)]"

definition btree_info_t :: ctype where
  "btree_info_t =
     Struct [(''bt_fixed'', btree_info_fixed_t),
             (''bt_longest_key'', Uint32),
             (''bt_longest_val'', Uint32),
             (''bt_key_count'', Uint64),
             (''bt_node_count'', Uint64)]"

definition kvloc_t :: ctype where
  "kvloc_t = Struct [(''k'', nloc_t), (''v'', nloc_t)]"

definition kvoff_t :: ctype where
  "kvoff_t = Struct [(''k'', Uint16), (''v'', Uint16)]"

text \<open>
  Modelled from the spec: the encoding of a table-of-contents entry that a node's flags
  select. No code under \<^verbatim>\<open>src/\<close> reads a table of contents. The specification
  gives an entry two encodings, selected by the fixed-key-value-size flag: the fixed-size
  entry of two 16-bit offsets when the flag is set, the variable-size entry of two
  location descriptors otherwise.
\<close>

definition toc_entry_t :: "16 word \<Rightarrow> ctype" where
  "toc_entry_t flags = (if flags AND BTNODE_FIXED_KV_SIZE \<noteq> 0 then kvoff_t else kvloc_t)"

section \<open>string/object.h: the object header as text\<close>

text \<open>
  Modelled from the spec: the value of an \<^verbatim>\<open>obj_phys_t\<close>, with the members named
  above. The two functions below read \<^verbatim>\<open>o_type\<close> only.
\<close>

record obj_phys =
  o_cksum :: "64 word"
  o_oid :: "64 word"
  o_xid :: "64 word"
  o_type :: "32 word"
  o_subtype :: "32 word"

text \<open>
  The macros of \<^verbatim>\<open>struct/object.h\<close> that the two functions use. That header is not
  among the sources, so their values are a parameter of the functions.
\<close>

record object_h =
  OBJ_STORAGETYPE_MASK :: "32 word"
  OBJ_VIRTUAL :: "32 word"
  OBJ_EPHEMERAL :: "32 word"
  OBJ_PHYSICAL :: "32 word"
  OBJ_NOHEADER :: "32 word"
  OBJ_ENCRYPTED :: "32 word"
  OBJ_NONPERSISTENT :: "32 word"

text \<open>
  \<^verbatim>\<open>char* get_obj_storage_type_string(obj_phys_t* obj)\<close>. The result is a
  \<^verbatim>\<open>char*\<close>: \<open>None\<close> stands for \<^verbatim>\<open>NULL\<close>, \<open>Some s\<close> for a pointer to the string
  \<open>s\<close>. The \<^verbatim>\<open>switch\<close> takes the first label that equals the masked value.
\<close>

definition get_obj_storage_type_string :: "object_h \<Rightarrow> obj_phys \<Rightarrow> string option" where
  "get_obj_storage_type_string h obj =
     (let x = o_type obj AND OBJ_STORAGETYPE_MASK h
      in if x = OBJ_VIRTUAL h then Some ''Virtual''
         else if x = OBJ_EPHEMERAL h then Some ''Ephemeral''
         else if x = OBJ_PHYSICAL h then Some ''Physical''
         else Some ''(invalid type)'')"

subsection \<open>The buffer of \<^verbatim>\<open>get_obj_type_flags_string\<close>\<close>

text \<open>
  The function builds its result in a block from \<^verbatim>\<open>malloc\<close>, through a cursor. The
  block is a list of bytes and the cursor an index into it; a store outside the block,
  a store through a null pointer and a scan that leaves the block are undefined behaviour
  in C and a \<open>fault\<close> here.
\<close>

datatype fault = NullPointerWrite | OutOfBoundsWrite | OutOfBoundsRead

text \<open>
  What the allocator does in one call of the function: \<open>malloc_block\<close> is \<open>None\<close> when
  \<^verbatim>\<open>malloc\<close> returns \<^verbatim>\<open>NULL\<close> and otherwise gives the indeterminate bytes that the
  fresh block holds; \<open>realloc_ok\<close> tells whether the final \<^verbatim>\<open>realloc\<close> returns the
  (shrunk) block or \<^verbatim>\<open>NULL\<close>.
\<close>

record heap_env =
  malloc_block :: "(nat \<Rightarrow> char) option"
  realloc_ok :: bool

definition fault_bind :: "fault + 'a \<Rightarrow> ('a \<Rightarrow> fault + 'b) \<Rightarrow> fault + 'b" where
  "fault_bind m f = (case m of Inl e \<Rightarrow> Inl e | Inr x \<Rightarrow> f x)"

text \<open>\<^verbatim>\<open>memcpy(cursor, src, strlen(src))\<close>\<close>

definition memcpy :: "string \<Rightarrow> nat \<Rightarrow> string \<Rightarrow> fault + string" where
  "memcpy buf cursor src =
     (if cursor + length src \<le> length buf
      then Inr (take cursor buf @ src @ drop (cursor + length src) buf)
      else Inl OutOfBoundsWrite)"

text \<open>\<^verbatim>\<open>*cursor = c\<close>\<close>

definition store_char :: "string \<Rightarrow> nat \<Rightarrow> char \<Rightarrow> fault + string" where
  "store_char buf cursor c =
     (if cursor < length buf then Inr (buf[cursor := c]) else Inl OutOfBoundsWrite)"

text \<open>\<^verbatim>\<open>strlen(result_string)\<close>: the number of bytes before the first zero byte.\<close>

definition strlen :: "string \<Rightarrow> fault + nat" where
  "strlen buf =
     (if CHR 0x00 \<in> set buf then Inr (length (takeWhile (\<lambda>c. c \<noteq> CHR 0x00) buf))
      else Inl OutOfBoundsRead)"

subsection \<open>\<^verbatim>\<open>get_obj_type_flags_string\<close>\<close>

definition flag_constants :: "object_h \<Rightarrow> 32 word list" where
  "flag_constants h = [OBJ_NOHEADER h, OBJ_ENCRYPTED h, OBJ_NONPERSISTENT h]"

definition flag_strings :: "string list" where
  "flag_strings =
     [''No-header'',
      ''Encrypted'',
      ''Non-persistent (should never appear on disk --- if it does, file a bug against the APFS implementation that created this object)'']"

text \<open>The first loop: the size of the block.\<close>

definition max_mem_required :: nat where
  "max_mem_required = fold (\<lambda>i m. m + (length (flag_strings ! i) + 2)) [0..<3] 0"

text \<open>
  The body of the second loop at index \<open>i\<close>, on the block and the cursor. The cursor
  differs from \<^verbatim>\<open>result_string\<close> exactly when its index is not 0.
\<close>

definition append_flag ::
  "object_h \<Rightarrow> obj_phys \<Rightarrow> nat \<Rightarrow> string \<times> nat \<Rightarrow> fault + string \<times> nat" where
  "append_flag h obj i st =
     (case st of (buf, cursor) \<Rightarrow>
        if o_type obj AND flag_constants h ! i \<noteq> 0 then
          fault_bind
            (if cursor \<noteq> 0 then
               fault_bind (store_char buf cursor (CHR '','')) (\<lambda>buf.
               fault_bind (store_char buf (cursor + 1) (CHR '' '')) (\<lambda>buf.
               Inr (buf, cursor + 2)))
             else Inr (buf, cursor))
            (\<lambda>(buf, cursor).
               fault_bind (memcpy buf cursor (flag_strings ! i)) (\<lambda>buf.
               Inr (buf, cursor + length (flag_strings ! i))))
        else Inr (buf, cursor))"

fun append_flags ::
  "object_h \<Rightarrow> obj_phys \<Rightarrow> nat list \<Rightarrow> string \<times> nat \<Rightarrow> fault + string \<times> nat" where
  "append_flags h obj [] st = Inr st"
| "append_flags h obj (i # is) st = fault_bind (append_flag h obj i st) (append_flags h obj is)"

text \<open>
  \<^verbatim>\<open>char* get_obj_type_flags_string(obj_phys_t* obj)\<close>. When \<^verbatim>\<open>malloc\<close> returns
  \<^verbatim>\<open>NULL\<close> the function prints a message and goes on with \<^verbatim>\<open>cursor == NULL\<close>: the
  loop writes no separator (the cursor equals \<^verbatim>\<open>result_string\<close>), so the first store
  is a \<^verbatim>\<open>memcpy\<close> of a flag string, or of \<^verbatim>\<open>"(none)"\<close> when no flag is set, to the
  null pointer. A successful run returns the bytes of the block before the first zero
  byte; a failing \<^verbatim>\<open>realloc\<close> makes the function return \<^verbatim>\<open>NULL\<close>.
\<close>

definition get_obj_type_flags_string ::
  "object_h \<Rightarrow> heap_env \<Rightarrow> obj_phys \<Rightarrow> fault + string option" where
  "get_obj_type_flags_string h env obj =
     (case malloc_block env of
        None \<Rightarrow> Inl NullPointerWrite
      | Some init \<Rightarrow>
          fault_bind (append_flags h obj [0..<3] (map init [0..<max_mem_required], 0))
            (\<lambda>(buf, cursor).
          fault_bind
            (if cursor = 0 then
               fault_bind (memcpy buf cursor ''(none)'')
                 (\<lambda>buf. Inr (buf, cursor + length ''(none)''))
             else Inr (buf, cursor))
            (\<lambda>(buf, cursor).
          fault_bind (store_char buf cursor (CHR 0x00)) (\<lambda>buf.
          fault_bind (strlen buf) (\<lambda>n.
          if realloc_ok env then Inr (Some (take n buf)) else Inr None)))))"

subsection \<open>The text that the flags stand for\<close>

text \<open>
  The statement side of \<^verbatim>\<open>get_obj_type_flags_string\<close>: the names of the flags that
  are set in a type word, in the order No-header, Encrypted, Non-persistent, and their
  list joined by a comma and a space. A flag is set when the bitwise and of the word with
  the flag's constant is not zero.
\<close>

definition set_flag_names :: "object_h \<Rightarrow> 32 word \<Rightarrow> string list" where
  "set_flag_names h t =
     (if t AND OBJ_NOHEADER h \<noteq> 0 then [''No-header''] else [])
     @ (if t AND OBJ_ENCRYPTED h \<noteq> 0 then [''Encrypted''] else [])
     @ (if t AND OBJ_NONPERSISTENT h \<noteq> 0
        then [''Non-persistent (should never appear on disk --- if it does, file a bug against the APFS implementation that created this object)'']
        else [])"

fun join_comma :: "string list \<Rightarrow> string" where
  "join_comma [] = []"
| "join_comma [s] = s"
| "join_comma (s # ss) = s @ '', '' @ join_comma ss"

text \<open>What pass \<open>i\<close> of the second loop adds to the text \<open>w\<close> written so far.\<close>

definition step_text :: "object_h \<Rightarrow> obj_phys \<Rightarrow> nat \<Rightarrow> string \<Rightarrow> string" where
  "step_text h obj i w =
     (if o_type obj AND flag_constants h ! i \<noteq> 0
      then (if w = [] then [] else w @ '', '') @ flag_strings ! i
      else w)"

subsection \<open>Concrete objects\<close>

text \<open>
  One choice of the macro values, the one of the Apple File System Reference, and a few
  object headers to run the functions on.
\<close>

definition apfs_object_h :: object_h where
  "apfs_object_h =
     \<lparr>OBJ_STORAGETYPE_MASK = 0xc0000000, OBJ_VIRTUAL = 0x00000000,
      OBJ_EPHEMERAL = 0x80000000, OBJ_PHYSICAL = 0x40000000, OBJ_NOHEADER = 0x20000000,
      OBJ_ENCRYPTED = 0x10000000, OBJ_NONPERSISTENT = 0x08000000\<rparr>"

definition physical_omap :: obj_phys where
  "physical_omap = \<lparr>o_cksum = 0, o_oid = 1, o_xid = 1, o_type = 0x4000000b, o_subtype = 0\<rparr>"

definition physical_btree :: obj_phys where
  "physical_btree = \<lparr>o_cksum = 0, o_oid = 2, o_xid = 1, o_type = 0x40000002, o_subtype = 0x0b\<rparr>"

definition flagged_omap :: obj_phys where
  "flagged_omap = \<lparr>o_cksum = 0, o_oid = 1, o_xid = 1, o_type = 0x3000000b, o_subtype = 0\<rparr>"

definition flagged_btree :: obj_phys where
  "flagged_btree = \<lparr>o_cksum = 0, o_oid = 2, o_xid = 1, o_type = 0xF0000002, o_subtype = 0x0b\<rparr>"

definition fresh_heap :: heap_env where
  "fresh_heap = \<lparr>malloc_block = Some (\<lambda>_. CHR ''x''), realloc_ok = True\<rparr>"

section \<open>The constants of the header\<close>

text \<open>
  Claim C7. The B-tree constants are: default node size 4096 bytes, minimum entries per
  node 4, table-of-contents growth increment 8 entries, and maximum unused
  table-of-contents slack 16 entries, which is twice the growth increment.
\<close>

theorem btree_constants:
  "BTREE_NODE_SIZE_DEFAULT = 4096
   \<and> BTREE_NODE_MIN_ENTRY_COUNT = 4
   \<and> BTREE_TOC_ENTRY_INCREMENT = 8
   \<and> BTREE_TOC_ENTRY_MAX_UNUSED = 16
   \<and> BTREE_TOC_ENTRY_MAX_UNUSED = 2 * BTREE_TOC_ENTRY_INCREMENT"
  by (simp add: BTREE_NODE_SIZE_DEFAULT_def BTREE_NODE_MIN_ENTRY_COUNT_def
      BTREE_TOC_ENTRY_INCREMENT_def BTREE_TOC_ENTRY_MAX_UNUSED_def)

lemma bits_0_1_2_15:
  "bit (push_bit 0 1 OR push_bit 1 1 OR push_bit 2 1 OR push_bit 15 (1 :: 16 word)) n
   \<longleftrightarrow> n \<in> {0, 1, 2, 15}"
  by (auto simp only: bit_or_iff bit_push_bit_iff bit_1_iff possible_bit_word
      len_of_numeral_defs insert_iff empty_iff simp_thms)

text \<open>
  Claim C2. The node flags field assigns exactly these bits: bit 0 (0x0001) marks a root
  node, bit 1 (0x0002) a leaf node, bit 2 (0x0004) the fixed key/value size mode and
  bit 15 (0x8000) the check of key offsets; no other node-flag bit is defined: the union
  of the defined constants is 0x8007, whose bits are 0, 1, 2 and 15.
\<close>

theorem btnode_flag_bits:
  "BTNODE_ROOT = 0x0001 \<and> BTNODE_ROOT = push_bit 0 1
   \<and> BTNODE_LEAF = 0x0002 \<and> BTNODE_LEAF = push_bit 1 1
   \<and> BTNODE_FIXED_KV_SIZE = 0x0004 \<and> BTNODE_FIXED_KV_SIZE = push_bit 2 1
   \<and> BTNODE_CHECK_KOFF_INVAL = 0x8000 \<and> BTNODE_CHECK_KOFF_INVAL = push_bit 15 1
   \<and> defined_bits btnode_flags = 0x8007
   \<and> (bit (defined_bits btnode_flags) n \<longleftrightarrow> n \<in> {0, 1, 2, 15})"
proof -
  have all: "defined_bits btnode_flags = 0x8007"
    by (simp add: defined_bits_def btnode_flags_def BTNODE_ROOT_def BTNODE_LEAF_def
        BTNODE_FIXED_KV_SIZE_def BTNODE_CHECK_KOFF_INVAL_def)
  have "(0x8007 :: 16 word) = push_bit 0 1 OR push_bit 1 1 OR push_bit 2 1 OR push_bit 15 1"
    by simp
  then have bits: "bit (0x8007 :: 16 word) n \<longleftrightarrow> n \<in> {0, 1, 2, 15}"
    by (simp only: bits_0_1_2_15)
  show ?thesis
    using bits
    by (simp add: all BTNODE_ROOT_def BTNODE_LEAF_def BTNODE_FIXED_KV_SIZE_def
        BTNODE_CHECK_KOFF_INVAL_def)
qed






section \<open>The layout of the structures\<close>

text \<open>
  Claim C4. A B-tree node begins with the object header, followed in this order by a
  16-bit flags field, a 16-bit level, a 32-bit key count and exactly four location
  descriptors (table-of-contents space, free space, key free list, value free list),
  each a 16-bit offset followed by a 16-bit length; the data area follows immediately
  after the last descriptor, at byte 56.
\<close>

theorem btree_node_phys_layout:
  "map snd (members btree_node_phys_t)
     = [obj_phys_t, Uint16, Uint16, Uint32, nloc_t, nloc_t, nloc_t, nloc_t, FlexArray Uint64]
   \<and> layout 0 (members btree_node_phys_t)
     = [(''btn_o'', 0, 32), (''btn_flags'', 32, 2), (''btn_level'', 34, 2),
        (''btn_nkeys'', 36, 4), (''btn_table_space'', 40, 4), (''btn_free_space'', 44, 4),
        (''btn_key_free_list'', 48, 4), (''btn_val_free_list'', 52, 4), (''btn_data'', 56, 0)]
   \<and> members nloc_t = [(''off'', Uint16), (''len'', Uint16)]
   \<and> layout 0 (members nloc_t) = [(''off'', 0, 2), (''len'', 2, 2)]
   \<and> size_of nloc_t = 4
   \<and> size_of btree_node_phys_t = 56"
  by code_simp

lemma toc_entry_struct:
  "members kvloc_t = [(''k'', nloc_t), (''v'', nloc_t)]
   \<and> members nloc_t = [(''off'', Uint16), (''len'', Uint16)]
   \<and> layout 0 (members kvloc_t) = [(''k'', 0, 4), (''v'', 4, 4)]
   \<and> size_of kvloc_t = 8
   \<and> members kvoff_t = [(''k'', Uint16), (''v'', Uint16)]
   \<and> layout 0 (members kvoff_t) = [(''k'', 0, 2), (''v'', 2, 2)]
   \<and> size_of kvoff_t = 4
   \<and> size_of kvloc_t = 2 * size_of kvoff_t"
  by code_simp

lemma kvloc_neq_kvoff: "kvloc_t \<noteq> kvoff_t"
  by (simp add: kvloc_t_def kvoff_t_def nloc_t_def)

lemma toc_entry_selected:
  "(toc_entry_t flags = kvoff_t \<longleftrightarrow> flags AND BTNODE_FIXED_KV_SIZE \<noteq> 0)
   \<and> (toc_entry_t flags = kvloc_t \<longleftrightarrow> flags AND BTNODE_FIXED_KV_SIZE = 0)
   \<and> size_of (toc_entry_t flags) = (if flags AND BTNODE_FIXED_KV_SIZE \<noteq> 0 then 4 else 8)
   \<and> toc_entry_t (flags AND BTNODE_FIXED_KV_SIZE) = toc_entry_t flags
   \<and> map (\<lambda>f. toc_entry_t (flags OR f)) [BTNODE_ROOT, BTNODE_LEAF, BTNODE_CHECK_KOFF_INVAL]
       = replicate 3 (toc_entry_t flags)"
proof -
  have s: "size_of kvloc_t = 8" "size_of kvoff_t = 4"
    using toc_entry_struct by simp_all
  show ?thesis
    using kvloc_neq_kvoff kvloc_neq_kvoff [symmetric]
    by (simp add: toc_entry_t_def s BTNODE_FIXED_KV_SIZE_def BTNODE_ROOT_def BTNODE_LEAF_def
        BTNODE_CHECK_KOFF_INVAL_def and.assoc bit.conj_disj_distrib2 numeral_eq_Suc)
qed

text \<open>
  Claim C5. A table-of-contents entry has exactly two encodings, selected by the
  fixed-key-value-size flag. In variable mode (flag clear) an entry is a \<^verbatim>\<open>kvloc_t\<close>:
  two full location descriptors, for the key and for the value, 8 bytes in all. In fixed
  mode (flag set) it is a \<^verbatim>\<open>kvoff_t\<close>: two bare 16-bit offsets without lengths, 4 bytes
  in all, which is exactly half of the variable encoding. The choice looks at that flag
  only: no other node flag changes it.
\<close>

theorem toc_entry_layout:
  "members kvloc_t = [(''k'', nloc_t), (''v'', nloc_t)]
   \<and> members nloc_t = [(''off'', Uint16), (''len'', Uint16)]
   \<and> layout 0 (members kvloc_t) = [(''k'', 0, 4), (''v'', 4, 4)]
   \<and> size_of kvloc_t = 8
   \<and> members kvoff_t = [(''k'', Uint16), (''v'', Uint16)]
   \<and> layout 0 (members kvoff_t) = [(''k'', 0, 2), (''v'', 2, 2)]
   \<and> size_of kvoff_t = 4
   \<and> size_of kvloc_t = 2 * size_of kvoff_t
   \<and> kvloc_t \<noteq> kvoff_t
   \<and> (toc_entry_t flags = kvoff_t \<longleftrightarrow> flags AND BTNODE_FIXED_KV_SIZE \<noteq> 0)
   \<and> (toc_entry_t flags = kvloc_t \<longleftrightarrow> flags AND BTNODE_FIXED_KV_SIZE = 0)
   \<and> size_of (toc_entry_t flags) = (if flags AND BTNODE_FIXED_KV_SIZE \<noteq> 0 then 4 else 8)
   \<and> toc_entry_t (flags AND BTNODE_FIXED_KV_SIZE) = toc_entry_t flags
   \<and> map (\<lambda>f. toc_entry_t (flags OR f)) [BTNODE_ROOT, BTNODE_LEAF, BTNODE_CHECK_KOFF_INVAL]
       = replicate 3 (toc_entry_t flags)"
  using toc_entry_struct kvloc_neq_kvoff toc_entry_selected [of flags]
  by blast

text \<open>
  Claim C6. The tree information of the root consists, in this order, of four 32-bit
  fixed fields (tree flags, node size, key size, value size), two 32-bit counters
  (longest key, longest value) and two 64-bit counters (key count, node count), 40 bytes
  in all.
\<close>

theorem btree_info_layout:
  "members btree_info_fixed_t
     = [(''bt_flags'', Uint32), (''bt_node_size'', Uint32), (''bt_key_size'', Uint32),
        (''bt_val_size'', Uint32)]
   \<and> layout 0 (members btree_info_fixed_t)
     = [(''bt_flags'', 0, 4), (''bt_node_size'', 4, 4), (''bt_key_size'', 8, 4),
        (''bt_val_size'', 12, 4)]
   \<and> map snd (members btree_info_t) = [btree_info_fixed_t, Uint32, Uint32, Uint64, Uint64]
   \<and> layout 0 (members btree_info_t)
     = [(''bt_fixed'', 0, 16), (''bt_longest_key'', 16, 4), (''bt_longest_val'', 20, 4),
        (''bt_key_count'', 24, 8), (''bt_node_count'', 32, 8)]
   \<and> size_of btree_info_t = 40"
  by code_simp

section \<open>The storage type as text\<close>

text \<open>
  Claim C9. \<^verbatim>\<open>get_obj_storage_type_string\<close> is total and never returns \<^verbatim>\<open>NULL\<close>:
  for every object it returns one of the four strings "Virtual", "Ephemeral", "Physical"
  and "(invalid type)", and two objects whose \<^verbatim>\<open>o_type\<close> agree under
  \<^verbatim>\<open>OBJ_STORAGETYPE_MASK\<close> get the same string.
\<close>

theorem get_obj_storage_type_string_total:
  "get_obj_storage_type_string h obj
     \<in> {Some ''Virtual'', Some ''Ephemeral'', Some ''Physical'', Some ''(invalid type)''}
   \<and> get_obj_storage_type_string h obj \<noteq> None
   \<and> (\<forall>obj'. o_type obj' AND OBJ_STORAGETYPE_MASK h = o_type obj AND OBJ_STORAGETYPE_MASK h
         \<longrightarrow> get_obj_storage_type_string h obj' = get_obj_storage_type_string h obj)"
  by (simp add: get_obj_storage_type_string_def Let_def)

theorem get_obj_storage_type_string_total_witness:
  "o_type physical_btree AND OBJ_STORAGETYPE_MASK apfs_object_h
     = o_type physical_omap AND OBJ_STORAGETYPE_MASK apfs_object_h
   \<and> get_obj_storage_type_string apfs_object_h physical_btree
     = get_obj_storage_type_string apfs_object_h physical_omap
   \<and> get_obj_storage_type_string apfs_object_h physical_omap = Some ''Physical''"
proof -
  note t = get_obj_storage_type_string_total [of apfs_object_h physical_omap]
  have e: "o_type physical_btree AND OBJ_STORAGETYPE_MASK apfs_object_h
           = o_type physical_omap AND OBJ_STORAGETYPE_MASK apfs_object_h"
    by (simp add: physical_btree_def physical_omap_def apfs_object_h_def)
  have s: "get_obj_storage_type_string apfs_object_h physical_btree
           = get_obj_storage_type_string apfs_object_h physical_omap"
    using t e by blast
  have v: "get_obj_storage_type_string apfs_object_h physical_omap = Some ''Physical''"
    by (simp add: get_obj_storage_type_string_def physical_omap_def apfs_object_h_def)
  show ?thesis using e s v by blast
qed

section \<open>The type flags as text\<close>

subsection \<open>Stores through the cursor\<close>

text \<open>
  Throughout the run the block is \<open>w @ t\<close>: the text \<open>w\<close> written so far, which ends at
  the cursor, and the untouched rest \<open>t\<close>.
\<close>

lemma memcpy_app:
  "length s \<le> length t \<Longrightarrow> memcpy (w @ t) (length w) s = Inr (w @ s @ drop (length s) t)"
  by (simp add: memcpy_def)

lemma store_char_app:
  "t \<noteq> [] \<Longrightarrow> store_char (w @ t) (length w) c = Inr (w @ c # drop 1 t)"
  by (cases t) (simp_all add: store_char_def)

lemma store_sep_app:
  assumes "2 \<le> length t"
  shows "fault_bind (store_char (w @ t) (length w) (CHR '',''))
           (\<lambda>buf. fault_bind (store_char buf (length w + 1) (CHR '' ''))
              (\<lambda>buf. Inr (buf, length w + 2)))
         = Inr ((w @ '', '') @ drop 2 t, length (w @ '', ''))"
proof -
  obtain a b r where t: "t = a # b # r"
    using assms by (cases t; cases "tl t") auto
  have "store_char ((w @ [CHR '','']) @ b # r) (length (w @ [CHR '',''])) (CHR '' '')
        = Inr ((w @ [CHR '','']) @ CHR '' '' # drop 1 (b # r))"
    by (rule store_char_app) simp
  then show ?thesis
    by (simp add: t store_char_app fault_bind_def)
qed

lemma terminate_app:
  assumes "CHR 0x00 \<notin> set w" and "t \<noteq> []"
  shows "fault_bind (store_char (w @ t) (length w) (CHR 0x00))
           (\<lambda>buf. fault_bind (strlen buf)
              (\<lambda>n. if ok then Inr (Some (take n buf)) else Inr None))
         = (if ok then Inr (Some w) else Inr None)"
proof -
  have tw: "takeWhile (\<lambda>c. c \<noteq> CHR 0x00) (w @ CHR 0x00 # r) = w" for r
    using assms(1) by (auto simp: takeWhile_tail takeWhile_eq_all_conv)
  show ?thesis
    using assms(2) by (simp add: store_char_app fault_bind_def strlen_def tw)
qed

subsection \<open>The second loop\<close>

lemma length_step_text:
  "length (step_text h obj i w) \<le> length w + (length (flag_strings ! i) + 2)"
  "length w \<le> length (step_text h obj i w)"
  by (simp_all add: step_text_def)

lemma length_fold_step_text: "length w \<le> length (fold (step_text h obj) is w)"
proof (induction "is" arbitrary: w)
  case Nil
  show ?case by simp
next
  case (Cons i "is")
  have "length w \<le> length (step_text h obj i w)"
    by (rule length_step_text(2))
  also have "\<dots> \<le> length (fold (step_text h obj) is (step_text h obj i w))"
    by (rule Cons.IH)
  finally show ?case by simp
qed

lemma append_flag_app:
  assumes "length (flag_strings ! i) + 2 \<le> length t"
  shows "append_flag h obj i (w @ t, length w)
         = Inr (step_text h obj i w @ drop (length (step_text h obj i w) - length w) t,
                length (step_text h obj i w))"
proof (cases "o_type obj AND flag_constants h ! i \<noteq> 0")
  case False
  then show ?thesis by (simp add: append_flag_def step_text_def)
next
  case set: True
  show ?thesis
  proof (cases "w = []")
    case True
    with set assms show ?thesis
      using memcpy_app [of "flag_strings ! i" t "[]"]
      by (simp add: append_flag_def step_text_def fault_bind_def)
  next
    case False
    have sep: "2 \<le> length t" using assms by simp
    have cp: "length (flag_strings ! i) \<le> length (drop 2 t)" using assms by simp
    show ?thesis
      using set False store_sep_app [OF sep, of w] memcpy_app [OF cp, of "w @ '', ''"]
      by (simp add: append_flag_def step_text_def fault_bind_def add.commute)
  qed
qed

lemma append_flags_app:
  "sum_list (map (\<lambda>i. length (flag_strings ! i) + 2) is) \<le> length t \<Longrightarrow>
   append_flags h obj is (w @ t, length w)
   = Inr (fold (step_text h obj) is w @ drop (length (fold (step_text h obj) is w) - length w) t,
          length (fold (step_text h obj) is w))"
proof (induction "is" arbitrary: w t)
  case Nil
  then show ?case by simp
next
  case (Cons i "is")
  let ?w = "step_text h obj i w"
  let ?t = "drop (length ?w - length w) t"
  have here: "length (flag_strings ! i) + 2 \<le> length t"
    using Cons.prems by simp
  have rest: "sum_list (map (\<lambda>i. length (flag_strings ! i) + 2) is) \<le> length ?t"
    using Cons.prems length_step_text(1) [of h obj i w] by simp
  have grow: "length w \<le> length ?w" "length ?w \<le> length (fold (step_text h obj) is ?w)"
    by (rule length_step_text(2), rule length_fold_step_text)
  show ?case
    using Cons.IH [OF rest, of ?w] grow
    by (simp add: append_flag_app [OF here] fault_bind_def)
qed

subsection \<open>The three flags\<close>

lemma upt_0_3: "[0..<3] = [0, 1, 2]"
  by (simp add: numeral_3_eq_3 numeral_2_eq_2)

lemma max_mem_required_eq: "max_mem_required = 152"
  by (simp add: max_mem_required_def upt_0_3 flag_strings_def)

lemma flag_strings_room:
  "sum_list (map (\<lambda>i. length (flag_strings ! i) + 2) [0..<3]) \<le> 152"
  by (simp add: upt_0_3 flag_strings_def)

lemma fold_step_text:
  "fold (step_text h obj) [0..<3] [] =
     (if set_flag_names h (o_type obj) = [] then []
      else join_comma (set_flag_names h (o_type obj)))"
  by (simp add: upt_0_3 step_text_def set_flag_names_def flag_constants_def flag_strings_def)

lemma set_flag_names_bound:
  "set_flag_names h t \<noteq> [] \<Longrightarrow>
   length (join_comma (set_flag_names h t)) + 2 \<le> 152
   \<and> CHR 0x00 \<notin> set (join_comma (set_flag_names h t))"
  by (simp add: set_flag_names_def split: if_splits)

lemma set_flag_names_empty:
  "set_flag_names h t = [] \<longleftrightarrow>
     t AND OBJ_NOHEADER h = 0 \<and> t AND OBJ_ENCRYPTED h = 0 \<and> t AND OBJ_NONPERSISTENT h = 0"
  by (simp add: set_flag_names_def)

lemma and_or3:
  fixes x y :: "'a::len word"
  assumes "x AND (a OR b OR c) = y AND (a OR b OR c)"
  shows "x AND a = y AND a" and "x AND b = y AND b" and "x AND c = y AND c"
proof -
  have sub: "z AND d = (z AND (a OR b OR c)) AND d" if "d AND (a OR b OR c) = d" for z d
  proof -
    have "(z AND (a OR b OR c)) AND d = z AND (d AND (a OR b OR c))"
      by (simp add: ac_simps)
    then show ?thesis by (simp add: that)
  qed
  have a: "a AND (a OR b OR c) = a"
    by (rule bit_word_eqI) (auto simp: bit_simps)
  have b: "b AND (a OR b OR c) = b"
    by (rule bit_word_eqI) (auto simp: bit_simps)
  have c: "c AND (a OR b OR c) = c"
    by (rule bit_word_eqI) (auto simp: bit_simps)
  show "x AND a = y AND a"
    using sub [OF a, of x] sub [OF a, of y] assms by simp
  show "x AND b = y AND b"
    using sub [OF b, of x] sub [OF b, of y] assms by simp
  show "x AND c = y AND c"
    using sub [OF c, of x] sub [OF c, of y] assms by simp
qed

lemma set_flag_names_masked:
  assumes "t' AND (OBJ_NOHEADER h OR OBJ_ENCRYPTED h OR OBJ_NONPERSISTENT h)
           = t AND (OBJ_NOHEADER h OR OBJ_ENCRYPTED h OR OBJ_NONPERSISTENT h)"
  shows "set_flag_names h t' = set_flag_names h t"
  using and_or3 [OF assms] by (simp add: set_flag_names_def)

subsection \<open>The whole function\<close>

lemma get_obj_type_flags_string_run:
  assumes "malloc_block env = Some init"
  shows "get_obj_type_flags_string h env obj =
           (if realloc_ok env
            then Inr (Some (if set_flag_names h (o_type obj) = [] then ''(none)''
                            else join_comma (set_flag_names h (o_type obj))))
            else Inr None)"
proof -
  let ?buf = "map init [0..<max_mem_required]"
  let ?names = "set_flag_names h (o_type obj)"
  have len: "length ?buf = 152"
    by (simp add: max_mem_required_eq)
  have "sum_list (map (\<lambda>i. length (flag_strings ! i) + 2) [0..<3]) \<le> length ?buf"
    using flag_strings_room len by simp
  from append_flags_app [OF this, of h obj "[]"]
  have loop: "append_flags h obj [0..<3] (?buf, 0)
              = Inr (fold (step_text h obj) [0..<3] []
                       @ drop (length (fold (step_text h obj) [0..<3] [])) ?buf,
                     length (fold (step_text h obj) [0..<3] []))"
    by simp
  show ?thesis
  proof (cases "?names = []")
    case True
    have none: "memcpy ?buf 0 ''(none)'' = Inr (''(none)'' @ drop (length ''(none)'') ?buf)"
      using memcpy_app [of "''(none)''" ?buf "[]"] len by simp
    have fin:
      "fault_bind (store_char (''(none)'' @ drop (length ''(none)'') ?buf) (length ''(none)'')
                     (CHR 0x00))
         (\<lambda>buf. fault_bind (strlen buf)
            (\<lambda>n. if realloc_ok env then Inr (Some (take n buf)) else Inr None))
       = (if realloc_ok env then Inr (Some ''(none)'') else Inr None)"
      by (rule terminate_app) (use len in auto)
    show ?thesis
      using True fin
      by (simp add: get_obj_type_flags_string_def assms loop fold_step_text none fault_bind_def)
  next
    case False
    let ?w = "join_comma ?names"
    from set_flag_names_bound [OF False]
    have room: "length ?w + 2 \<le> 152" and nul: "CHR 0x00 \<notin> set ?w"
      by simp_all
    have w: "?w \<noteq> []"
      using False by (auto simp: set_flag_names_def split: if_splits)
    have fin:
      "fault_bind (store_char (?w @ drop (length ?w) ?buf) (length ?w) (CHR 0x00))
         (\<lambda>buf. fault_bind (strlen buf)
            (\<lambda>n. if realloc_ok env then Inr (Some (take n buf)) else Inr None))
       = (if realloc_ok env then Inr (Some ?w) else Inr None)"
      by (rule terminate_app [OF nul]) (use room len in auto)
    show ?thesis
      using False w fin
      by (simp add: get_obj_type_flags_string_def assms loop fold_step_text fault_bind_def)
  qed
qed

lemma get_obj_type_flags_string_no_block:
  "malloc_block env = None \<Longrightarrow> get_obj_type_flags_string h env obj = Inl NullPointerWrite"
  by (simp add: get_obj_type_flags_string_def)

text \<open>
  Claim C10. When the allocator serves the call, \<^verbatim>\<open>get_obj_type_flags_string\<close>
  returns exactly the string "(none)" for every object whose \<^verbatim>\<open>o_type\<close> has none of the
  three flags \<^verbatim>\<open>OBJ_NOHEADER\<close>, \<^verbatim>\<open>OBJ_ENCRYPTED\<close>, \<^verbatim>\<open>OBJ_NONPERSISTENT\<close> set;
  otherwise it returns the names of exactly the set flags, joined by a comma and a space,
  in the order No-header, Encrypted, Non-persistent. The result does not depend on any
  other bit of \<^verbatim>\<open>o_type\<close>: objects that agree on the three flags get the same string.
\<close>

theorem get_obj_type_flags_string_names:
  assumes "malloc_block env = Some init" and "realloc_ok env"
  shows "get_obj_type_flags_string h env obj =
           Inr (Some (if o_type obj AND OBJ_NOHEADER h = 0 \<and> o_type obj AND OBJ_ENCRYPTED h = 0
                           \<and> o_type obj AND OBJ_NONPERSISTENT h = 0
                      then ''(none)''
                      else join_comma (set_flag_names h (o_type obj))))
         \<and> (\<forall>obj'. o_type obj' AND (OBJ_NOHEADER h OR OBJ_ENCRYPTED h OR OBJ_NONPERSISTENT h)
                      = o_type obj AND (OBJ_NOHEADER h OR OBJ_ENCRYPTED h OR OBJ_NONPERSISTENT h)
                  \<longrightarrow> get_obj_type_flags_string h env obj' = get_obj_type_flags_string h env obj)"
proof (intro conjI allI impI)
  show "get_obj_type_flags_string h env obj =
          Inr (Some (if o_type obj AND OBJ_NOHEADER h = 0 \<and> o_type obj AND OBJ_ENCRYPTED h = 0
                          \<and> o_type obj AND OBJ_NONPERSISTENT h = 0
                     then ''(none)''
                     else join_comma (set_flag_names h (o_type obj))))"
    using assms(2)
    by (simp add: get_obj_type_flags_string_run [OF assms(1)] set_flag_names_empty)
next
  fix obj' :: obj_phys
  assume "o_type obj' AND (OBJ_NOHEADER h OR OBJ_ENCRYPTED h OR OBJ_NONPERSISTENT h)
          = o_type obj AND (OBJ_NOHEADER h OR OBJ_ENCRYPTED h OR OBJ_NONPERSISTENT h)"
  then have "set_flag_names h (o_type obj') = set_flag_names h (o_type obj)"
    by (rule set_flag_names_masked)
  then show "get_obj_type_flags_string h env obj' = get_obj_type_flags_string h env obj"
    by (simp add: get_obj_type_flags_string_run [OF assms(1)])
qed

theorem get_obj_type_flags_string_names_witness:
  "malloc_block fresh_heap = Some (\<lambda>_. CHR ''x'') \<and> realloc_ok fresh_heap
   \<and> get_obj_type_flags_string apfs_object_h fresh_heap flagged_omap
       = Inr (Some ''No-header, Encrypted'')
   \<and> o_type flagged_btree
         AND (OBJ_NOHEADER apfs_object_h OR OBJ_ENCRYPTED apfs_object_h
              OR OBJ_NONPERSISTENT apfs_object_h)
       = o_type flagged_omap
         AND (OBJ_NOHEADER apfs_object_h OR OBJ_ENCRYPTED apfs_object_h
              OR OBJ_NONPERSISTENT apfs_object_h)
   \<and> get_obj_type_flags_string apfs_object_h fresh_heap flagged_btree
       = get_obj_type_flags_string apfs_object_h fresh_heap flagged_omap"
proof -
  have m: "malloc_block fresh_heap = Some (\<lambda>_. CHR ''x'')" and r: "realloc_ok fresh_heap"
    by (simp_all add: fresh_heap_def)
  note t = get_obj_type_flags_string_names [OF m r, of apfs_object_h flagged_omap]
  have a: "get_obj_type_flags_string apfs_object_h fresh_heap flagged_omap
           = Inr (Some ''No-header, Encrypted'')"
    using t by (simp add: flagged_omap_def apfs_object_h_def set_flag_names_def)
  have e: "o_type flagged_btree
             AND (OBJ_NOHEADER apfs_object_h OR OBJ_ENCRYPTED apfs_object_h
                  OR OBJ_NONPERSISTENT apfs_object_h)
           = o_type flagged_omap
             AND (OBJ_NOHEADER apfs_object_h OR OBJ_ENCRYPTED apfs_object_h
                  OR OBJ_NONPERSISTENT apfs_object_h)"
    by (simp add: flagged_omap_def flagged_btree_def apfs_object_h_def)
  have b: "get_obj_type_flags_string apfs_object_h fresh_heap flagged_btree
           = get_obj_type_flags_string apfs_object_h fresh_heap flagged_omap"
    using t e by blast
  show ?thesis using m r a e b by blast
qed

end
